theory Spec2Isabelle
  imports Complex_Main "HOL-Library.Sublist"
begin

section \<open>Decoded JSON values\<close>

text \<open>
  The tool adapters exchange JSON with the external services and hand JSON to the agent
  loop. A value is modelled after decoding: \<open>json.loads (json.dumps v) = v\<close> is taken
  for granted, so an adapter that returns \<open>json.dumps d\<close> is modelled as returning \<open>d\<close>.
  Python compares \<open>1 == 1.0\<close> as equal, so integers and floats share one constructor;
  floats are modelled by exact rationals. A dict is an association list in insertion
  order; every dict built or read here has distinct keys.
\<close>

datatype json =
    JNull
  | JBool bool
  | JNum rat
  | JStr string
  | JList "json list"
  | JDict "(string \<times> json) list"

text \<open>Exceptions that escape a function which has no handler for them.\<close>

datatype py_error = TypeError | AttributeError

text \<open>Python's \<open>needle in haystack\<close> on two strings: a contiguous occurrence.\<close>

primrec str_contains :: "string \<Rightarrow> string \<Rightarrow> bool" where
  "str_contains needle [] = (needle = [])"
| "str_contains needle (c # cs) = (prefix needle (c # cs) \<or> str_contains needle cs)"

text \<open>
  \<open>key in value\<close> for a decoded value: key membership on a dict, element membership on a
  list, substring on a string, and a \<open>TypeError\<close> on numbers, booleans and \<open>None\<close>.
\<close>

fun py_in :: "string \<Rightarrow> json \<Rightarrow> py_error + bool" where
  "py_in k (JDict d) = Inr (k \<in> set (map fst d))"
| "py_in k (JList xs) = Inr (JStr k \<in> set xs)"
| "py_in k (JStr s) = Inr (str_contains k s)"
| "py_in k JNull = Inl TypeError"
| "py_in k (JBool b) = Inl TypeError"
| "py_in k (JNum n) = Inl TypeError"

text \<open>\<open>value.get(key)\<close>: only a dict has the method; a missing key gives \<open>None\<close>.\<close>

fun py_get :: "json \<Rightarrow> string \<Rightarrow> py_error + json" where
  "py_get (JDict d) k = Inr (case map_of d k of None \<Rightarrow> JNull | Some v \<Rightarrow> v)"
| "py_get JNull k = Inl AttributeError"
| "py_get (JBool b) k = Inl AttributeError"
| "py_get (JNum n) k = Inl AttributeError"
| "py_get (JStr s) k = Inl AttributeError"
| "py_get (JList xs) k = Inl AttributeError"

text \<open>\<open>str(n)\<close> for a Python integer, as the f-strings of the adapters use it.\<close>

fun digits_of_nat :: "nat \<Rightarrow> string" where
  "digits_of_nat n =
     (if n < 10 then [''0123456789'' ! n]
      else digits_of_nat (n div 10) @ [''0123456789'' ! (n mod 10)])"

declare digits_of_nat.simps [simp del]

definition str_of_int :: "int \<Rightarrow> string" where
  "str_of_int i = (if i < 0 then CHR ''-'' # digits_of_nat (nat (- i)) else digits_of_nat (nat i))"

section \<open>The HTTP boundary\<close>

text \<open>
  What one HTTP exchange of an adapter can end in. \<open>HTTPError\<close> is any \<open>httpx.HTTPError\<close>
  (connection failure, timeout, or the non-2xx status raised by \<open>raise_for_status\<close>);
  \<open>OtherError\<close> is any other \<open>Exception\<close>, among them a body that \<open>response.json()\<close>
  cannot decode; both carry \<open>str(e)\<close>. \<open>Response\<close> is a 2xx answer with its decoded body.
\<close>

datatype http_outcome =
    HTTPError string
  | OtherError string
  | Response json

fun is_failure :: "http_outcome \<Rightarrow> bool" where
  "is_failure (HTTPError e) = True"
| "is_failure (OtherError e) = True"
| "is_failure (Response body) = False"

section \<open>Crawler tools\<close>

subsection \<open>get_task_status\<close>

text \<open>
  \<open>GET /tasks/{task_id}\<close>; the argument \<open>out\<close> is what the exchange ended in. This is
  the body of the function, which is what runs when the agent runner invokes the tool.
\<close>

fun get_task_status :: "string \<Rightarrow> http_outcome \<Rightarrow> json" where
  "get_task_status task_id (Response body) = body"
| "get_task_status task_id (HTTPError e) =
     JDict [(''error'', JStr (''Failed to get task status: '' @ e)),
            (''task_id'', JStr task_id)]"
| "get_task_status task_id (OtherError e) =
     JDict [(''error'', JStr (''Unexpected error: '' @ e)),
            (''task_id'', JStr task_id)]"

subsection \<open>wait_for_task_completion\<close>

text \<open>
  The poller reads the event loop's clock, fetches the status and sleeps. The clock and
  the log of what the poller did are the state; the crawl service is a script, one entry
  per status fetch in the order the fetches happen: how long the clock moved until the
  fetch returned (measured from the moment the preceding sleep was due) and what the
  exchange ended in. \<open>asyncio.sleep d\<close> moves the clock by \<open>d\<close>, or not at all when
  \<open>d \<le> 0\<close>.
\<close>

record world =
  now :: rat
  fetches :: nat
  sleeps :: "int list"

definition fetched :: "rat \<Rightarrow> world \<Rightarrow> world" where
  "fetched lat w = w\<lparr>now := now w + lat, fetches := Suc (fetches w)\<rparr>"

definition slept :: "int \<Rightarrow> world \<Rightarrow> world" where
  "slept d w = w\<lparr>now := now w + max 0 (of_int d), sleeps := sleeps w @ [d]\<rparr>"

definition terminal_states :: "json list" where
  "terminal_states = [JStr ''completed'', JStr ''failed'', JStr ''cancelled'']"

definition timeout_result :: "string \<Rightarrow> int \<Rightarrow> json \<Rightarrow> json" where
  "timeout_result task_id timeout status_result =
     JDict [(''error'', JStr (''Task '' @ task_id @ '' did not complete within ''
                               @ str_of_int timeout @ ''s'')),
            (''task_id'', JStr task_id),
            (''status'', JStr ''timeout''),
            (''last_status'', status_result)]"

text \<open>
  Every adapter of the module is defined under \<open>@function_tool\<close>. The decorator of the
  agents library returns a \<open>FunctionTool\<close> object, and that object, not the function,
  is what the module global names afterwards. The object keeps the function for the
  agent runner, which invokes it through \<open>on_invoke_tool\<close>; it has no \<open>__call__\<close>, so
  a call written in Python, \<open>get_task_status(task_id)\<close>, raises \<open>TypeError\<close> before the
  function is entered.
\<close>

datatype 'f module_global =
    Plain 'f
  | FunctionTool 'f

fun py_call :: "'f module_global \<Rightarrow> py_error + 'f" where
  "py_call (Plain f) = Inr f"
| "py_call (FunctionTool f) = Inl TypeError"

definition get_task_status_global :: "(string \<Rightarrow> http_outcome \<Rightarrow> json) module_global" where
  "get_task_status_global = FunctionTool get_task_status"

text \<open>
  The body of \<open>while True\<close>, one equation per state of the script; \<open>g\<close> is what the
  global \<open>get_task_status\<close> names when the loop runs. Each round begins with the call
  \<open>get_task_status(task_id)\<close>: when that raises, the exception leaves the function, which
  has no handler, and nothing has been fetched. Otherwise the loop has no bound of its
  own, so a script that ends before the loop returns gives \<open>None\<close>: the model says
  nothing about a fetch the script does not describe. \<open>Some (Inl e, w)\<close> is an exception
  that leaves the function, \<open>Some (Inr r, w)\<close> the returned value.
\<close>

fun poll_loop ::
  "(string \<Rightarrow> http_outcome \<Rightarrow> json) module_global
     \<Rightarrow> string \<Rightarrow> int \<Rightarrow> int \<Rightarrow> rat \<Rightarrow> (rat \<times> http_outcome) list \<Rightarrow> world
     \<Rightarrow> ((py_error + json) \<times> world) option" where
  "poll_loop g task_id timeout poll_interval start_time [] w =
     (case py_call g of
        Inl e \<Rightarrow> Some (Inl e, w)
      | Inr f \<Rightarrow> None)"
| "poll_loop g task_id timeout poll_interval start_time ((lat, out) # script) w =
     (case py_call g of
        Inl e \<Rightarrow> Some (Inl e, w)
      | Inr f \<Rightarrow>
          (let w1 = fetched lat w;
               status_result = f task_id out
           in case py_in ''error'' status_result of
                Inl e \<Rightarrow> Some (Inl e, w1)
              | Inr True \<Rightarrow> Some (Inr status_result, w1)
              | Inr False \<Rightarrow>
                  (case py_get status_result ''status'' of
                     Inl e \<Rightarrow> Some (Inl e, w1)
                   | Inr st \<Rightarrow>
                       if st \<in> set terminal_states then Some (Inr status_result, w1)
                       else if now w1 - start_time > of_int timeout
                            then Some (Inr (timeout_result task_id timeout status_result), w1)
                            else poll_loop g task_id timeout poll_interval start_time script
                                   (slept poll_interval w1))))"

text \<open>
  The tool as the module has it: the loop runs with the global as the decorator left it.
\<close>

definition wait_for_task_completion ::
  "string \<Rightarrow> int \<Rightarrow> int \<Rightarrow> (rat \<times> http_outcome) list \<Rightarrow> world
     \<Rightarrow> ((py_error + json) \<times> world) option" where
  "wait_for_task_completion task_id timeout poll_interval script w =
     poll_loop get_task_status_global task_id timeout poll_interval (now w) script w"

subsection \<open>The remaining crawler adapters\<close>

text \<open>
  Every adapter issues one HTTP request. An adapter \<open>f\<close> is modelled by \<open>f_request\<close>, the
  request it sends, and by \<open>f\<close> itself as a function of what that exchange ended in.
  \<open>json.loads\<close> is passed in as \<open>loads\<close>: \<open>Inl\<close> carries the text of the decoding error.
\<close>

record settings =
  crawler_api_base :: string
  sensitive_content_api :: string
  sentiment_api :: string
  coordinator_model :: string
  data_collection_model :: string
  analysis_model :: string
  report_model :: string
  decision_model :: string

datatype http_request =
    POST string json
  | GET string "(string \<times> json) list"

definition create_crawler_task_request ::
  "settings \<Rightarrow> (string \<Rightarrow> string + json) \<Rightarrow> string \<Rightarrow> string \<Rightarrow> string \<Rightarrow> http_request option" where
  "create_crawler_task_request cfg loads platform crawler_type config_json =
     (case loads config_json of
        Inl e \<Rightarrow> None
      | Inr config \<Rightarrow>
          Some (POST (crawler_api_base cfg @ ''/tasks/crawl'')
                  (JDict [(''platform'', JStr platform),
                          (''crawler_type'', JStr crawler_type),
                          (''config'', config)])))"

definition create_crawler_task ::
  "(string \<Rightarrow> string + json) \<Rightarrow> string \<Rightarrow> string \<Rightarrow> string \<Rightarrow> http_outcome \<Rightarrow> json" where
  "create_crawler_task loads platform crawler_type config_json out =
     (case loads config_json of
        Inl e \<Rightarrow>
          JDict [(''error'', JStr (''Unexpected error: '' @ e)),
                 (''platform'', JStr platform),
                 (''crawler_type'', JStr crawler_type)]
      | Inr config \<Rightarrow>
          (case out of
             Response body \<Rightarrow> body
           | HTTPError e \<Rightarrow>
               JDict [(''error'', JStr (''Failed to create crawler task: '' @ e)),
                      (''platform'', JStr platform),
                      (''crawler_type'', JStr crawler_type)]
           | OtherError e \<Rightarrow>
               JDict [(''error'', JStr (''Unexpected error: '' @ e)),
                      (''platform'', JStr platform),
                      (''crawler_type'', JStr crawler_type)]))"

definition get_task_status_request :: "settings \<Rightarrow> string \<Rightarrow> http_request" where
  "get_task_status_request cfg task_id = GET (crawler_api_base cfg @ ''/tasks/'' @ task_id) []"

definition get_crawler_statistics_request :: "settings \<Rightarrow> string \<Rightarrow> http_request" where
  "get_crawler_statistics_request cfg task_id =
     GET (crawler_api_base cfg @ ''/tasks/'' @ task_id @ ''/stats'') []"

fun get_crawler_statistics :: "string \<Rightarrow> http_outcome \<Rightarrow> json" where
  "get_crawler_statistics task_id (Response body) = body"
| "get_crawler_statistics task_id (HTTPError e) =
     JDict [(''error'', JStr (''Failed to get statistics: '' @ e)),
            (''task_id'', JStr task_id)]"
| "get_crawler_statistics task_id (OtherError e) =
     JDict [(''error'', JStr (''Unexpected error: '' @ e)),
            (''task_id'', JStr task_id)]"

text \<open>
  \<open>if platform:\<close> on an \<open>Optional[str]\<close>: the filter is sent when the argument is neither
  \<open>None\<close> nor the empty string.
\<close>

fun opt_param :: "string \<Rightarrow> string option \<Rightarrow> (string \<times> json) list" where
  "opt_param k None = []"
| "opt_param k (Some v) = (if v = [] then [] else [(k, JStr v)])"

definition query_params ::
  "string option \<Rightarrow> string option \<Rightarrow> string option \<Rightarrow> string option \<Rightarrow> int
     \<Rightarrow> (string \<times> json) list" where
  "query_params platform keyword start_time end_time limit =
     [(''limit'', JNum (of_int (min limit 1000)))]
     @ opt_param ''platform'' platform
     @ opt_param ''keyword'' keyword
     @ opt_param ''start_time'' start_time
     @ opt_param ''end_time'' end_time"

definition query_crawled_posts_request ::
  "settings \<Rightarrow> string option \<Rightarrow> string option \<Rightarrow> string option \<Rightarrow> string option \<Rightarrow> int
     \<Rightarrow> http_request" where
  "query_crawled_posts_request cfg platform keyword start_time end_time limit =
     GET (crawler_api_base cfg @ ''/posts'')
         (query_params platform keyword start_time end_time limit)"

fun query_crawled_posts ::
  "string option \<Rightarrow> string option \<Rightarrow> string option \<Rightarrow> string option \<Rightarrow> int
     \<Rightarrow> http_outcome \<Rightarrow> json" where
  "query_crawled_posts platform keyword start_time end_time limit (Response body) = body"
| "query_crawled_posts platform keyword start_time end_time limit (HTTPError e) =
     JList [JDict [(''error'', JStr (''Failed to query posts: '' @ e))]]"
| "query_crawled_posts platform keyword start_time end_time limit (OtherError e) =
     JList [JDict [(''error'', JStr (''Unexpected error: '' @ e))]]"

text \<open>The \<open>limit\<close> parameter of a request, when it has one.\<close>

fun dispatched_limit :: "http_request \<Rightarrow> json option" where
  "dispatched_limit (GET url params) = map_of params ''limit''"
| "dispatched_limit (POST url body) = None"

section \<open>Analysis tools\<close>

definition analyze_sensitive_content_request :: "settings \<Rightarrow> string \<Rightarrow> string \<Rightarrow> http_request" where
  "analyze_sensitive_content_request cfg video_url video_id =
     POST (sensitive_content_api cfg @ ''/analyze'')
          (JDict [(''video_url'', JStr video_url), (''video_id'', JStr video_id)])"

fun analyze_sensitive_content :: "string \<Rightarrow> string \<Rightarrow> http_outcome \<Rightarrow> json" where
  "analyze_sensitive_content video_url video_id (Response body) = body"
| "analyze_sensitive_content video_url video_id (HTTPError e) =
     JDict [(''error'', JStr (''Failed to analyze sensitive content: '' @ e)),
            (''video_id'', JStr video_id),
            (''has_violation'', JBool False)]"
| "analyze_sensitive_content video_url video_id (OtherError e) =
     JDict [(''error'', JStr (''Unexpected error: '' @ e)),
            (''video_id'', JStr video_id),
            (''has_violation'', JBool False)]"

definition analyze_sentiment_request :: "settings \<Rightarrow> string \<Rightarrow> string \<Rightarrow> http_request" where
  "analyze_sentiment_request cfg text post_id =
     POST (sentiment_api cfg @ ''/analyze'')
          (JDict [(''text'', JStr text), (''post_id'', JStr post_id)])"

fun analyze_sentiment :: "string \<Rightarrow> string \<Rightarrow> http_outcome \<Rightarrow> json" where
  "analyze_sentiment text post_id (Response body) = body"
| "analyze_sentiment text post_id (HTTPError e) =
     JDict [(''error'', JStr (''Failed to analyze sentiment: '' @ e)),
            (''post_id'', JStr post_id),
            (''overall_sentiment'', JStr ''neutral''),
            (''sentiment_score'', JNum 0),
            (''emotions'', JDict []),
            (''confidence'', JNum 0)]"
| "analyze_sentiment text post_id (OtherError e) =
     JDict [(''error'', JStr (''Unexpected error: '' @ e)),
            (''post_id'', JStr post_id),
            (''overall_sentiment'', JStr ''neutral''),
            (''sentiment_score'', JNum 0),
            (''emotions'', JDict []),
            (''confidence'', JNum 0)]"

definition extract_topics_request :: "settings \<Rightarrow> string list \<Rightarrow> int \<Rightarrow> http_request" where
  "extract_topics_request cfg texts num_topics =
     POST (sentiment_api cfg @ ''/topics'')
          (JDict [(''texts'', JList (map JStr texts)),
                  (''num_topics'', JNum (of_int (max 3 (min num_topics 20))))])"

fun extract_topics :: "string list \<Rightarrow> int \<Rightarrow> http_outcome \<Rightarrow> json" where
  "extract_topics texts num_topics (Response body) = body"
| "extract_topics texts num_topics (HTTPError e) =
     JList [JDict [(''error'', JStr (''Failed to extract topics: '' @ e))]]"
| "extract_topics texts num_topics (OtherError e) =
     JList [JDict [(''error'', JStr (''Unexpected error: '' @ e))]]"

text \<open>The \<open>num_topics\<close> field of a request body, when it has one.\<close>

fun dispatched_num_topics :: "http_request \<Rightarrow> json option" where
  "dispatched_num_topics (POST url (JDict body)) = map_of body ''num_topics''"
| "dispatched_num_topics (POST url JNull) = None"
| "dispatched_num_topics (POST url (JBool b)) = None"
| "dispatched_num_topics (POST url (JNum n)) = None"
| "dispatched_num_topics (POST url (JStr s)) = None"
| "dispatched_num_topics (POST url (JList xs)) = None"
| "dispatched_num_topics (GET url params) = None"

definition detect_trends_request ::
  "settings \<Rightarrow> (string \<Rightarrow> string + json) \<Rightarrow> string \<Rightarrow> string \<Rightarrow> http_request option" where
  "detect_trends_request cfg loads post_data_json time_window =
     (case loads post_data_json of
        Inl e \<Rightarrow> None
      | Inr post_data \<Rightarrow>
          Some (POST (sentiment_api cfg @ ''/trends'')
                  (JDict [(''posts'', post_data), (''time_window'', JStr time_window)])))"

definition detect_trends ::
  "(string \<Rightarrow> string + json) \<Rightarrow> string \<Rightarrow> string \<Rightarrow> http_outcome \<Rightarrow> json" where
  "detect_trends loads post_data_json time_window out =
     (case loads post_data_json of
        Inl e \<Rightarrow> JList [JDict [(''error'', JStr (''Unexpected error: '' @ e))]]
      | Inr post_data \<Rightarrow>
          (case out of
             Response body \<Rightarrow> body
           | HTTPError e \<Rightarrow> JList [JDict [(''error'', JStr (''Failed to detect trends: '' @ e))]]
           | OtherError e \<Rightarrow> JList [JDict [(''error'', JStr (''Unexpected error: '' @ e))]]))"

subsection \<open>analyze_engagement\<close>

text \<open>
  \<open>x or d\<close> on an integer: \<open>d\<close> when \<open>x\<close> is zero. \<open>round(x, n)\<close> rounds to \<open>n\<close> decimals,
  a tie going to the even neighbour. The true divisions are carried out on rationals,
  where the code computes with doubles: the two agree unless the exact rate lies on a
  rounding tie or within a rounding error of one (at likes 23 and views 160 the exact
  14.375 rounds to 14.38 and the double below it to 14.37), and the model has no
  \<open>OverflowError\<close> for counts beyond the range of a double.
\<close>

definition py_or :: "int \<Rightarrow> int \<Rightarrow> int" where
  "py_or x d = (if x = 0 then d else x)"

definition round_half_even :: "rat \<Rightarrow> int" where
  "round_half_even x =
     (let f = \<lfloor>x\<rfloor>; r = x - of_int f
      in if r < 1 / 2 then f
         else if 1 / 2 < r then f + 1
         else if even f then f else f + 1)"

definition py_round :: "rat \<Rightarrow> nat \<Rightarrow> rat" where
  "py_round x ndigits = of_int (round_half_even (x * 10 ^ ndigits)) / 10 ^ ndigits"

definition analyze_engagement :: "int \<Rightarrow> int \<Rightarrow> int \<Rightarrow> int \<Rightarrow> json" where
  "analyze_engagement likes0 comments0 shares0 views0 =
     (let likes = py_or likes0 0;
          comments = py_or comments0 0;
          shares = py_or shares0 0;
          views = py_or views0 1;
          total_interactions = likes + comments + shares;
          engagement_rate =
            (if views > 0 then (of_int total_interactions / of_int views) * 100 else 0);
          interaction_rate =
            (if views > 0 then (of_int (comments + shares) / of_int views) * 100 else 0);
          (level, percentile) =
            (if engagement_rate > 10 then (''very_high'', 95)
             else if engagement_rate > 5 then (''high'', 75)
             else if engagement_rate > 2 then (''medium'', 50)
             else (''low'', 25));
          platform_avg = 26 / 5
      in JDict
           [(''engagement_rate'', JNum (py_round engagement_rate 2)),
            (''interaction_rate'', JNum (py_round interaction_rate 2)),
            (''engagement_level'', JStr level),
            (''total_interactions'', JNum (of_int total_interactions)),
            (''metrics'',
               JDict [(''likes'', JNum (of_int likes)),
                      (''comments'', JNum (of_int comments)),
                      (''shares'', JNum (of_int shares)),
                      (''views'', JNum (of_int views))]),
            (''benchmarks'',
               JDict [(''platform_average'', JNum platform_avg),
                      (''percentile'', JNum percentile),
                      (''vs_average'',
                         JNum (if platform_avg > 0
                               then py_round ((engagement_rate / platform_avg - 1) * 100) 1
                               else 0))])])"

text \<open>Reading one field of a returned record.\<close>

fun field :: "json \<Rightarrow> string \<Rightarrow> json option" where
  "field (JDict d) k = map_of d k"
| "field JNull k = None"
| "field (JBool b) k = None"
| "field (JNum n) k = None"
| "field (JStr s) k = None"
| "field (JList xs) k = None"


text \<open>The defaults of the \<open>Settings\<close> class, as far as the model reads them.\<close>

definition default_settings :: settings where
  "default_settings =
     \<lparr>crawler_api_base = ''http://localhost:8000/api/v1'',
      sensitive_content_api = ''http://localhost:8001/api/v1'',
      sentiment_api = ''http://localhost:8002/api/v1'',
      coordinator_model = ''gpt-4-turbo'',
      data_collection_model = ''gpt-4o-mini'',
      analysis_model = ''gpt-4-turbo'',
      report_model = ''gpt-4-turbo'',
      decision_model = ''gpt-4-turbo''\<rparr>"

section \<open>The agent pipeline\<close>

text \<open>
  An \<open>Agent\<close> object of the agents library, with the fields the factories set; a field a
  factory leaves out has the library's default (no tools, no handoffs, no output type).
  The instruction texts are opaque and stand under the names of their constants, tools
  and output types under the names of the functions and classes. Objects live in a heap
  that only grows; an object's identity is its address, and \<open>handoffs\<close> holds addresses,
  so that "the same instance" and "another instance with the same structure" are
  different statements.
\<close>

type_synonym addr = nat

record agent =
  name :: string
  model :: string
  instructions :: string
  tools :: "string list"
  handoffs :: "addr list"
  output_type :: "string option"

record runner =
  heap :: "agent list"
  agent_system :: "addr option"

definition new_agent :: "agent \<Rightarrow> runner \<Rightarrow> addr \<times> runner" where
  "new_agent a s = (length (heap s), s\<lparr>heap := heap s @ [a]\<rparr>)"

definition create_decision_support_agent :: "settings \<Rightarrow> runner \<Rightarrow> addr \<times> runner" where
  "create_decision_support_agent cfg s =
     new_agent
       \<lparr>name = ''Decision Support'',
        model = decision_model cfg,
        instructions = ''DECISION_SUPPORT_INSTRUCTIONS'',
        tools = [],
        handoffs = [],
        output_type = Some ''DecisionSupport''\<rparr> s"

text \<open>
  Modelled from the spec: \<open>poa_agents/report_generation.py\<close> is not among the sources.
  The spec gives the Report-Generation agent one handoff, to Decision-Support, builds it
  after Decision-Support and before Content-Analysis, and the settings give it
  \<open>report_model\<close>. Its name is the role's name; its tools, instructions and output
  type are not known, and the results below use nothing of them but that two runs of
  the factory set them alike.
\<close>

definition create_report_generation_agent :: "settings \<Rightarrow> addr \<Rightarrow> runner \<Rightarrow> addr \<times> runner" where
  "create_report_generation_agent cfg decision_support_agent s =
     new_agent
       \<lparr>name = ''Report Generation'',
        model = report_model cfg,
        instructions = ''REPORT_GENERATION_INSTRUCTIONS'',
        tools = [],
        handoffs = [decision_support_agent],
        output_type = Some ''AnalysisReport''\<rparr> s"

definition create_content_analysis_agent :: "settings \<Rightarrow> addr \<Rightarrow> runner \<Rightarrow> addr \<times> runner" where
  "create_content_analysis_agent cfg report_generation_agent s =
     new_agent
       \<lparr>name = ''Content Analysis'',
        model = analysis_model cfg,
        instructions = ''CONTENT_ANALYSIS_INSTRUCTIONS'',
        tools = [''analyze_sensitive_content'', ''analyze_sentiment'', ''extract_topics'',
                 ''detect_trends'', ''analyze_engagement''],
        handoffs = [report_generation_agent],
        output_type = Some ''AnalysisResult''\<rparr> s"

definition create_data_collection_agent :: "settings \<Rightarrow> addr \<Rightarrow> runner \<Rightarrow> addr \<times> runner" where
  "create_data_collection_agent cfg content_analysis_agent s =
     new_agent
       \<lparr>name = ''Data Collection'',
        model = data_collection_model cfg,
        instructions = ''DATA_COLLECTION_INSTRUCTIONS'',
        tools = [''create_crawler_task'', ''get_task_status'', ''wait_for_task_completion'',
                 ''get_crawler_statistics'', ''query_crawled_posts''],
        handoffs = [content_analysis_agent],
        output_type = Some ''CrawlerResult''\<rparr> s"

definition create_coordinator_agent ::
  "settings \<Rightarrow> addr \<Rightarrow> addr \<Rightarrow> runner \<Rightarrow> addr \<times> runner" where
  "create_coordinator_agent cfg data_collection_agent analysis_pipeline_agent s =
     new_agent
       \<lparr>name = ''Coordinator'',
        model = coordinator_model cfg,
        instructions = ''COORDINATOR_INSTRUCTIONS'',
        tools = [''create_crawler_task'', ''get_task_status'', ''wait_for_task_completion'',
                 ''query_crawled_posts''],
        handoffs = [data_collection_agent, analysis_pipeline_agent],
        output_type = None\<rparr> s"

definition initialize_agent_system :: "settings \<Rightarrow> runner \<Rightarrow> addr \<times> runner" where
  "initialize_agent_system cfg s =
     (let (decision_support_agent, s1) = create_decision_support_agent cfg s;
          (report_generation_agent, s2) =
             create_report_generation_agent cfg decision_support_agent s1;
          (content_analysis_agent, s3) =
             create_content_analysis_agent cfg report_generation_agent s2;
          (data_collection_agent, s4) =
             create_data_collection_agent cfg content_analysis_agent s3;
          (coordinator_agent, s5) =
             create_coordinator_agent cfg data_collection_agent content_analysis_agent s4
      in (coordinator_agent, s5))"

definition get_agent_system :: "settings \<Rightarrow> runner \<Rightarrow> addr \<times> runner" where
  "get_agent_system cfg s =
     (case agent_system s of
        None \<Rightarrow>
          (let (a, s') = initialize_agent_system cfg s
           in (a, s'\<lparr>agent_system := Some a\<rparr>))
      | Some a \<Rightarrow> (a, s))"

definition reset_agent_system :: "runner \<Rightarrow> runner" where
  "reset_agent_system s = s\<lparr>agent_system := None\<rparr>"

text \<open>
  The module as loaded, and the calls a program can make on it afterwards, in any order.
\<close>

definition module_loaded :: runner where
  "module_loaded = \<lparr>heap = [], agent_system = None\<rparr>"

datatype call = Initialize | Get | Reset

fun do_call :: "settings \<Rightarrow> runner \<Rightarrow> call \<Rightarrow> runner" where
  "do_call cfg s Initialize = snd (initialize_agent_system cfg s)"
| "do_call cfg s Get = snd (get_agent_system cfg s)"
| "do_call cfg s Reset = reset_agent_system s"

definition after_calls :: "settings \<Rightarrow> call list \<Rightarrow> runner" where
  "after_calls cfg cs = foldl (do_call cfg) module_loaded cs"

text \<open>
  The structure below an address, unfolded along the handoffs to a given depth. Two
  addresses with the same unfolding at every depth cannot be told apart by anything
  but identity.
\<close>

datatype agent_tree =
    Cut
  | Dangling
  | Node string string string "string list" "string option" "agent_tree list"

fun agent_graph :: "nat \<Rightarrow> agent list \<Rightarrow> addr \<Rightarrow> agent_tree" where
  "agent_graph 0 h a = Cut"
| "agent_graph (Suc n) h a =
     (if a < length h
      then Node (name (h ! a)) (model (h ! a)) (instructions (h ! a)) (tools (h ! a))
             (output_type (h ! a)) (map (agent_graph n h) (handoffs (h ! a)))
      else Dangling)"

text \<open>The handoff edges that leave the agents at addresses from \<open>lo\<close> on.\<close>

definition handoff_edges :: "agent list \<Rightarrow> addr \<Rightarrow> (addr \<times> addr) set" where
  "handoff_edges h lo = {(b, c). lo \<le> b \<and> b < length h \<and> c \<in> set (handoffs (h ! b))}"


section \<open>Auxiliary notions for the results\<close>

subsection \<open>Adapters as one family\<close>

text \<open>
  The network adapters with their arguments, so that a statement can range over all of
  them, and the adapter each one stands for.
\<close>

datatype tool_call =
    Create_crawler_task string string string
  | Get_task_status string
  | Get_crawler_statistics string
  | Query_crawled_posts "string option" "string option" "string option" "string option" int
  | Analyze_sensitive_content string string
  | Analyze_sentiment string string
  | Extract_topics "string list" int
  | Detect_trends string string

fun call_tool :: "(string \<Rightarrow> string + json) \<Rightarrow> tool_call \<Rightarrow> http_outcome \<Rightarrow> json" where
  "call_tool loads (Create_crawler_task platform crawler_type config_json) out =
     create_crawler_task loads platform crawler_type config_json out"
| "call_tool loads (Get_task_status task_id) out = get_task_status task_id out"
| "call_tool loads (Get_crawler_statistics task_id) out = get_crawler_statistics task_id out"
| "call_tool loads (Query_crawled_posts platform keyword start_time end_time limit) out =
     query_crawled_posts platform keyword start_time end_time limit out"
| "call_tool loads (Analyze_sensitive_content video_url video_id) out =
     analyze_sensitive_content video_url video_id out"
| "call_tool loads (Analyze_sentiment text post_id) out = analyze_sentiment text post_id out"
| "call_tool loads (Extract_topics texts num_topics) out = extract_topics texts num_topics out"
| "call_tool loads (Detect_trends post_data_json time_window) out =
     detect_trends loads post_data_json time_window out"

text \<open>An argument that \<open>json.loads\<close> rejects before anything is sent.\<close>

fun undecodable :: "(string \<Rightarrow> string + json) \<Rightarrow> tool_call \<Rightarrow> bool" where
  "undecodable loads (Create_crawler_task platform crawler_type config_json) =
     isl (loads config_json)"
| "undecodable loads (Detect_trends post_data_json time_window) = isl (loads post_data_json)"
| "undecodable loads (Get_task_status task_id) = False"
| "undecodable loads (Get_crawler_statistics task_id) = False"
| "undecodable loads (Query_crawled_posts platform keyword start_time end_time limit) = False"
| "undecodable loads (Analyze_sensitive_content video_url video_id) = False"
| "undecodable loads (Analyze_sentiment text post_id) = False"
| "undecodable loads (Extract_topics texts num_topics) = False"

text \<open>
  The record of an error result: the result itself, or the only element of the list for
  the adapters whose regular result is a list.
\<close>

fun error_record :: "json \<Rightarrow> (string \<times> json) list option" where
  "error_record (JDict d) = Some d"
| "error_record (JList [JDict d]) = Some d"
| "error_record (JList []) = None"
| "error_record (JList (JNull # xs)) = None"
| "error_record (JList (JBool b # xs)) = None"
| "error_record (JList (JNum n # xs)) = None"
| "error_record (JList (JStr s # xs)) = None"
| "error_record (JList (JList ys # xs)) = None"
| "error_record (JList (JDict d # x # xs)) = None"
| "error_record JNull = None"
| "error_record (JBool b) = None"
| "error_record (JNum n) = None"
| "error_record (JStr s) = None"

text \<open>What the error record of each adapter holds after the message.\<close>

fun echoed_fields :: "tool_call \<Rightarrow> (string \<times> json) list" where
  "echoed_fields (Create_crawler_task platform crawler_type config_json) =
     [(''platform'', JStr platform), (''crawler_type'', JStr crawler_type)]"
| "echoed_fields (Get_task_status task_id) = [(''task_id'', JStr task_id)]"
| "echoed_fields (Get_crawler_statistics task_id) = [(''task_id'', JStr task_id)]"
| "echoed_fields (Query_crawled_posts platform keyword start_time end_time limit) = []"
| "echoed_fields (Analyze_sensitive_content video_url video_id) =
     [(''video_id'', JStr video_id), (''has_violation'', JBool False)]"
| "echoed_fields (Analyze_sentiment text post_id) =
     [(''post_id'', JStr post_id),
      (''overall_sentiment'', JStr ''neutral''),
      (''sentiment_score'', JNum 0),
      (''emotions'', JDict []),
      (''confidence'', JNum 0)]"
| "echoed_fields (Extract_topics texts num_topics) = []"
| "echoed_fields (Detect_trends post_data_json time_window) = []"

subsection \<open>The shape of one assembly\<close>

text \<open>
  One run of the assembler allocates five agents in a row. Their handoffs are addresses,
  so two assemblies differ by where they start; \<open>shift\<close> moves the references of an
  agent, and \<open>is_assembly cfg h base\<close> says that the five agents from \<open>base\<close> on are
  those the assembler builds there. \<open>pipeline_ok\<close> is the invariant of the module: the
  cached instance, when there is one, is the coordinator of such an assembly.
\<close>

definition shift :: "nat \<Rightarrow> agent \<Rightarrow> agent" where
  "shift base ag = ag\<lparr>handoffs := map (\<lambda>a. base + a) (handoffs ag)\<rparr>"

definition first_assembly :: "settings \<Rightarrow> agent list" where
  "first_assembly cfg = heap (snd (initialize_agent_system cfg module_loaded))"

definition is_assembly :: "settings \<Rightarrow> agent list \<Rightarrow> addr \<Rightarrow> bool" where
  "is_assembly cfg h base \<longleftrightarrow>
     base + 5 \<le> length h \<and> take 5 (drop base h) = map (shift base) (first_assembly cfg)"

definition pipeline_ok :: "settings \<Rightarrow> runner \<Rightarrow> bool" where
  "pipeline_ok cfg s \<longleftrightarrow>
     (case agent_system s of
        None \<Rightarrow> True
      | Some a \<Rightarrow> 4 \<le> a \<and> is_assembly cfg (heap s) (a - 4))"

text \<open>
  Concrete inputs on which the results are evaluated. \<open>documented_running_payload\<close> has
  the fields of the payload in the docstring of \<open>get_task_status\<close>, among them
  \<open>"error": null\<close>; \<open>running_payload\<close> is a payload without that key.
\<close>

definition w0 :: world where
  "w0 = \<lparr>now = 0, fetches = 0, sleeps = []\<rparr>"

definition running_payload :: json where
  "running_payload = JDict [(''task_id'', JStr ''crawl_1''), (''status'', JStr ''running'')]"

definition documented_running_payload :: json where
  "documented_running_payload =
     JDict [(''task_id'', JStr ''crawl_1''), (''status'', JStr ''running''),
            (''progress'', JNum 10), (''total_posts'', JNum 48),
            (''total_accounts'', JNum 5), (''execution_time'', JNum (63 / 2)),
            (''error'', JNull)]"

definition completed_payload :: json where
  "completed_payload =
     JDict [(''task_id'', JStr ''crawl_1''), (''status'', JStr ''completed''),
            (''total_posts'', JNum 487)]"

section \<open>Results on the completion poller\<close>

text \<open>The tool as the module has it raises before it fetches anything, on every input.\<close>

lemma wait_for_task_completion_TypeError:
  "wait_for_task_completion task_id timeout poll_interval script w = Some (Inl TypeError, w)"
  by (cases script)
    (auto simp: wait_for_task_completion_def get_task_status_global_def)

text \<open>
  C1. The claim does not hold of the code. Called on a task whose status goes running,
  running, completed, with a timeout of 600 and an interval of 5, the tool raises
  \<open>TypeError\<close> with the world untouched: no fetch, no sleep, no payload. The loop as
  written, run with a callable fetch, does return a terminal payload at once and the
  completed payload after exactly two sleeps of 5, but only on payloads without an
  error key: on the payload shape of the docstring, which carries \<open>"error": null\<close>, it
  returns the first running payload after one fetch and no sleep.
\<close>

theorem wait_raises_on_running_running_completed:
  "wait_for_task_completion ''crawl_1'' 600 5
       [(1 / 10, Response running_payload), (1 / 5, Response running_payload),
        (1 / 10, Response completed_payload)] w0
     = Some (Inl TypeError, w0)
   \<and> poll_loop (Plain get_task_status) ''crawl_1'' 600 5 0
       [(1 / 10, Response running_payload), (1 / 5, Response running_payload),
        (1 / 10, Response completed_payload)] w0
     = Some (Inr completed_payload, \<lparr>now = 52 / 5, fetches = 3, sleeps = [5, 5]\<rparr>)
   \<and> poll_loop (Plain get_task_status) ''crawl_1'' 600 5 0
       [(1 / 10, Response documented_running_payload),
        (1 / 5, Response documented_running_payload),
        (1 / 10, Response completed_payload)] w0
     = Some (Inr documented_running_payload, \<lparr>now = 1 / 10, fetches = 1, sleeps = []\<rparr>)"
proof (intro conjI)
  show "wait_for_task_completion ''crawl_1'' 600 5
       [(1 / 10, Response running_payload), (1 / 5, Response running_payload),
        (1 / 10, Response completed_payload)] w0
     = Some (Inl TypeError, w0)"
    by (rule wait_for_task_completion_TypeError)
  show "poll_loop (Plain get_task_status) ''crawl_1'' 600 5 0
       [(1 / 10, Response running_payload), (1 / 5, Response running_payload),
        (1 / 10, Response completed_payload)] w0
     = Some (Inr completed_payload, \<lparr>now = 52 / 5, fetches = 3, sleeps = [5, 5]\<rparr>)"
    by (simp add: Let_def fetched_def slept_def terminal_states_def w0_def
        running_payload_def completed_payload_def)
  show "poll_loop (Plain get_task_status) ''crawl_1'' 600 5 0
       [(1 / 10, Response documented_running_payload),
        (1 / 5, Response documented_running_payload),
        (1 / 10, Response completed_payload)] w0
     = Some (Inr documented_running_payload, \<lparr>now = 1 / 10, fetches = 1, sleeps = []\<rparr>)"
    by (simp add: Let_def fetched_def w0_def documented_running_payload_def)
qed

text \<open>
  C2. The claim does not hold of the code. Called with a timeout of 0 (or of -3) the tool
  raises \<open>TypeError\<close> with the fetch count unchanged: it performs no status check and
  builds no timeout record. The loop as written, run with a callable fetch, builds the
  timeout record once the clock has moved by more than the timeout, but only for a
  payload without an error key: on the payload shape of the docstring it returns the
  payload, not the record.
\<close>

theorem wait_raises_without_status_check:
  "wait_for_task_completion ''crawl_1'' 0 5 [(1 / 10, Response running_payload)] w0
     = Some (Inl TypeError, w0)
   \<and> wait_for_task_completion ''crawl_1'' (- 3) 5 [(1 / 10, Response running_payload)] w0
     = Some (Inl TypeError, w0)
   \<and> fetches w0 = 0
   \<and> poll_loop (Plain get_task_status) ''crawl_1'' 600 5 0 [(3, Response running_payload)]
       \<lparr>now = 598, fetches = 120, sleeps = replicate 119 5\<rparr>
     = Some (Inr (JDict [(''error'', JStr ''Task crawl_1 did not complete within 600s''),
                         (''task_id'', JStr ''crawl_1''),
                         (''status'', JStr ''timeout''),
                         (''last_status'', running_payload)]),
             \<lparr>now = 601, fetches = 121, sleeps = replicate 119 5\<rparr>)
   \<and> poll_loop (Plain get_task_status) ''crawl_1'' 600 5 0
       [(3, Response documented_running_payload)]
       \<lparr>now = 598, fetches = 120, sleeps = replicate 119 5\<rparr>
     = Some (Inr documented_running_payload,
             \<lparr>now = 601, fetches = 121, sleeps = replicate 119 5\<rparr>)"
proof (intro conjI)
  show "wait_for_task_completion ''crawl_1'' 0 5 [(1 / 10, Response running_payload)] w0
     = Some (Inl TypeError, w0)"
    by (rule wait_for_task_completion_TypeError)
  show "wait_for_task_completion ''crawl_1'' (- 3) 5 [(1 / 10, Response running_payload)] w0
     = Some (Inl TypeError, w0)"
    by (rule wait_for_task_completion_TypeError)
  show "fetches w0 = 0" by (simp add: w0_def)
  have s600: "str_of_int 600 = ''600''"
    by (simp add: str_of_int_def digits_of_nat.simps)
  show "poll_loop (Plain get_task_status) ''crawl_1'' 600 5 0 [(3, Response running_payload)]
       \<lparr>now = 598, fetches = 120, sleeps = replicate 119 5\<rparr>
     = Some (Inr (JDict [(''error'', JStr ''Task crawl_1 did not complete within 600s''),
                         (''task_id'', JStr ''crawl_1''),
                         (''status'', JStr ''timeout''),
                         (''last_status'', running_payload)]),
             \<lparr>now = 601, fetches = 121, sleeps = replicate 119 5\<rparr>)"
    by (simp add: Let_def fetched_def terminal_states_def timeout_result_def s600
        running_payload_def)
  show "poll_loop (Plain get_task_status) ''crawl_1'' 600 5 0
       [(3, Response documented_running_payload)]
       \<lparr>now = 598, fetches = 120, sleeps = replicate 119 5\<rparr>
     = Some (Inr documented_running_payload,
             \<lparr>now = 601, fetches = 121, sleeps = replicate 119 5\<rparr>)"
    by (simp add: Let_def fetched_def documented_running_payload_def)
qed

text \<open>
  C9. The claim does not hold of the code. With the crawl service unreachable, the
  status adapter would turn the failure into an error record, and the loop as written,
  run with a callable fetch, returns that record after the one fetch, with no sleep and
  no second fetch. The tool as the module has it never gets that far: it raises
  \<open>TypeError\<close> and returns no error record.
\<close>

theorem wait_raises_instead_of_error_result:
  "get_task_status ''crawl_1'' (HTTPError ''connection refused'')
     = JDict [(''error'', JStr ''Failed to get task status: connection refused''),
              (''task_id'', JStr ''crawl_1'')]
   \<and> wait_for_task_completion ''crawl_1'' 600 5
       [(1 / 10, HTTPError ''connection refused''), (1, Response completed_payload)] w0
     = Some (Inl TypeError, w0)
   \<and> poll_loop (Plain get_task_status) ''crawl_1'' 600 5 0
       [(1 / 10, HTTPError ''connection refused''), (1, Response completed_payload)] w0
     = Some (Inr (JDict [(''error'', JStr ''Failed to get task status: connection refused''),
                         (''task_id'', JStr ''crawl_1'')]),
             \<lparr>now = 1 / 10, fetches = 1, sleeps = []\<rparr>)"
proof (intro conjI)
  show "get_task_status ''crawl_1'' (HTTPError ''connection refused'')
     = JDict [(''error'', JStr ''Failed to get task status: connection refused''),
              (''task_id'', JStr ''crawl_1'')]"
    by simp
  show "wait_for_task_completion ''crawl_1'' 600 5
       [(1 / 10, HTTPError ''connection refused''), (1, Response completed_payload)] w0
     = Some (Inl TypeError, w0)"
    by (rule wait_for_task_completion_TypeError)
  show "poll_loop (Plain get_task_status) ''crawl_1'' 600 5 0
       [(1 / 10, HTTPError ''connection refused''), (1, Response completed_payload)] w0
     = Some (Inr (JDict [(''error'', JStr ''Failed to get task status: connection refused''),
                         (''task_id'', JStr ''crawl_1'')]),
             \<lparr>now = 1 / 10, fetches = 1, sleeps = []\<rparr>)"
    by (simp add: Let_def fetched_def w0_def)
qed

section \<open>Results on the tool adapters\<close>

text \<open>
  C3. On likes 1000, comments 50, shares 20, views 10000 the engagement analysis gives
  1070 interactions, a rate of 10.7 and the level very_high. On likes 100, comments 10,
  shares 5, views 0 it gives 115 interactions and divides by nothing, but the rate it
  reports is 11500 and not 0: a view count of 0 is replaced by 1 before the rate is
  computed.
\<close>

theorem analyze_engagement_values:
  "field (analyze_engagement 1000 50 20 10000) ''total_interactions'' = Some (JNum 1070)
   \<and> field (analyze_engagement 1000 50 20 10000) ''engagement_rate'' = Some (JNum (107 / 10))
   \<and> field (analyze_engagement 1000 50 20 10000) ''engagement_level'' = Some (JStr ''very_high'')
   \<and> field (analyze_engagement 100 10 5 0) ''total_interactions'' = Some (JNum 115)
   \<and> field (analyze_engagement 100 10 5 0) ''engagement_rate'' = Some (JNum 11500)
   \<and> field (analyze_engagement 100 10 5 0) ''engagement_rate'' \<noteq> Some (JNum 0)"
  by (simp add: analyze_engagement_def py_or_def py_round_def round_half_even_def Let_def)

text \<open>
  C4, as the code has it. The limit sent to the query service is the smaller of the
  requested limit and 1000: it never exceeds 1000, a positive request stays positive,
  and a request of 5000 is sent as 1000. There is no lower bound.
\<close>

theorem query_limit_upper_clamp:
  "dispatched_limit (query_crawled_posts_request cfg platform keyword start_time end_time limit)
     = Some (JNum (of_int (min limit 1000)))
   \<and> min limit 1000 \<le> 1000
   \<and> (0 < limit \<longrightarrow> 0 < min limit 1000)
   \<and> dispatched_limit (query_crawled_posts_request cfg platform keyword start_time end_time 5000)
     = Some (JNum 1000)"
  by (simp add: query_crawled_posts_request_def query_params_def)

theorem query_limit_upper_clamp_witness:
  "dispatched_limit
       (query_crawled_posts_request default_settings (Some ''douyin'') None None None 50)
     = Some (JNum 50)
   \<and> (0::int) < 50 \<and> (0::int) < min 50 1000
   \<and> dispatched_limit
       (query_crawled_posts_request default_settings (Some ''douyin'') None None None 5000)
     = Some (JNum 1000)"
  using query_limit_upper_clamp
    [where cfg = default_settings and platform = "Some ''douyin''" and keyword = None
       and start_time = None and end_time = None and limit = 50]
  by simp

text \<open>
  The claim C4 as stated fails: a requested limit of 0 is sent as 0, which is not in the
  interval (0, 1000].
\<close>

theorem query_limit_not_positive:
  "dispatched_limit (query_crawled_posts_request default_settings None None None None 0)
     = Some (JNum 0)
   \<and> \<not> (0 < (0::rat) \<and> (0::rat) \<le> 1000)"
  by (simp add: query_crawled_posts_request_def query_params_def)

text \<open>
  C6. The topic count sent to the topic service is the requested count clamped into
  3..20: it always lies in that range, a request of 1 is sent as 3 and a request of 50
  as 20.
\<close>

theorem extract_topics_clamp:
  "dispatched_num_topics (extract_topics_request cfg texts num_topics)
     = Some (JNum (of_int (max 3 (min num_topics 20))))
   \<and> 3 \<le> max 3 (min num_topics 20) \<and> max 3 (min num_topics 20) \<le> 20
   \<and> dispatched_num_topics (extract_topics_request cfg texts 1) = Some (JNum 3)
   \<and> dispatched_num_topics (extract_topics_request cfg texts 50) = Some (JNum 20)"
  by (simp add: extract_topics_request_def)

theorem extract_topics_clamp_witness:
  "dispatched_num_topics (extract_topics_request default_settings [''a'', ''b''] (- 7))
     = Some (JNum 3)
   \<and> dispatched_num_topics (extract_topics_request default_settings [''a'', ''b''] 12)
     = Some (JNum 12)
   \<and> dispatched_num_topics (extract_topics_request default_settings [''a'', ''b''] 1)
     = Some (JNum 3)
   \<and> dispatched_num_topics (extract_topics_request default_settings [''a'', ''b''] 50)
     = Some (JNum 20)"
  using extract_topics_clamp [where cfg = default_settings and texts = "[''a'', ''b'']"
      and num_topics = "- 7"]
    extract_topics_clamp [where cfg = default_settings and texts = "[''a'', ''b'']"
      and num_topics = 12]
  by simp

text \<open>
  C10. On every transport or unexpected failure the sentiment analysis returns a record
  that holds an error message, the post id of the request, the sentiment neutral, the
  score 0, no emotions and the confidence 0. A regular answer of the service with these
  five fields is returned as it is, so the error entry is all that tells the two apart.
\<close>

theorem analyze_sentiment_failure_defaults:
  "is_failure out \<Longrightarrow>
     (\<exists>msg. analyze_sentiment body_text post_id out
              = JDict ((''error'', JStr msg)
                       # [(''post_id'', JStr post_id),
                          (''overall_sentiment'', JStr ''neutral''),
                          (''sentiment_score'', JNum 0),
                          (''emotions'', JDict []),
                          (''confidence'', JNum 0)]))
     \<and> analyze_sentiment body_text post_id
          (Response (JDict [(''post_id'', JStr post_id),
                            (''overall_sentiment'', JStr ''neutral''),
                            (''sentiment_score'', JNum 0),
                            (''emotions'', JDict []),
                            (''confidence'', JNum 0)]))
        = JDict [(''post_id'', JStr post_id),
                 (''overall_sentiment'', JStr ''neutral''),
                 (''sentiment_score'', JNum 0),
                 (''emotions'', JDict []),
                 (''confidence'', JNum 0)]"
  by (cases out) simp_all

theorem analyze_sentiment_failure_defaults_witness:
  "is_failure (HTTPError ''read timeout'')
   \<and> analyze_sentiment ''great product'' ''post_123'' (HTTPError ''read timeout'')
      = JDict [(''error'', JStr ''Failed to analyze sentiment: read timeout''),
               (''post_id'', JStr ''post_123''),
               (''overall_sentiment'', JStr ''neutral''),
               (''sentiment_score'', JNum 0),
               (''emotions'', JDict []),
               (''confidence'', JNum 0)]"
  using analyze_sentiment_failure_defaults
    [where out = "HTTPError ''read timeout''" and body_text = "''great product''"
       and post_id = "''post_123''"]
  by simp

text \<open>
  C5, as the code has it. Every network adapter turns every failure of its exchange,
  and every argument it cannot decode, into a returned error result whose record starts
  with an error message. What follows the message depends on the adapter: the crawl
  submission repeats platform and crawler type, the status and statistics adapters the
  task id, the sensitive-content analysis the video id with has_violation false, the
  sentiment analysis the post id with its neutral defaults; the post query, the topic
  extraction and the trend detection return a list of one record that holds the message
  and nothing of the request.
\<close>

theorem adapter_failure_record:
  "is_failure out \<or> undecodable loads call \<Longrightarrow>
     (\<exists>msg. error_record (call_tool loads call out)
              = Some ((''error'', JStr msg) # echoed_fields call))
     \<and> (call = Create_crawler_task platform crawler_type config_json \<longrightarrow>
          (\<exists>msg. call_tool loads call out
                   = JDict [(''error'', JStr msg), (''platform'', JStr platform),
                            (''crawler_type'', JStr crawler_type)]))
     \<and> (call = Analyze_sensitive_content video_url video_id \<longrightarrow>
          field (call_tool loads call out) ''has_violation'' = Some (JBool False))"
proof (cases call)
  case (Create_crawler_task p c j)
  assume "is_failure out \<or> undecodable loads call"
  with Create_crawler_task show ?thesis
    by (cases "loads j"; cases out) (auto simp: create_crawler_task_def)
next
  case (Detect_trends j tw)
  assume "is_failure out \<or> undecodable loads call"
  with Detect_trends show ?thesis
    by (cases "loads j"; cases out) (auto simp: detect_trends_def)
next
  case (Get_task_status t)
  assume "is_failure out \<or> undecodable loads call"
  with Get_task_status show ?thesis by (cases out) simp_all
next
  case (Get_crawler_statistics t)
  assume "is_failure out \<or> undecodable loads call"
  with Get_crawler_statistics show ?thesis by (cases out) simp_all
next
  case (Query_crawled_posts p k st et l)
  assume "is_failure out \<or> undecodable loads call"
  with Query_crawled_posts show ?thesis by (cases out) simp_all
next
  case (Analyze_sensitive_content u v)
  assume "is_failure out \<or> undecodable loads call"
  with Analyze_sensitive_content show ?thesis by (cases out) simp_all
next
  case (Analyze_sentiment t p)
  assume "is_failure out \<or> undecodable loads call"
  with Analyze_sentiment show ?thesis by (cases out) simp_all
next
  case (Extract_topics ts n)
  assume "is_failure out \<or> undecodable loads call"
  with Extract_topics show ?thesis by (cases out) simp_all
qed

theorem adapter_failure_record_witness:
  "is_failure (HTTPError ''connection refused'')
   \<and> call_tool (\<lambda>s. Inr JNull) (Create_crawler_task ''douyin'' ''search'' ''null'')
        (HTTPError ''connection refused'')
      = JDict [(''error'', JStr ''Failed to create crawler task: connection refused''),
               (''platform'', JStr ''douyin''),
               (''crawler_type'', JStr ''search'')]
   \<and> undecodable (\<lambda>s. Inl ''Expecting value'') (Create_crawler_task ''douyin'' ''search'' ''{'')
   \<and> call_tool (\<lambda>s. Inl ''Expecting value'') (Create_crawler_task ''douyin'' ''search'' ''{'')
        (Response JNull)
      = JDict [(''error'', JStr ''Unexpected error: Expecting value''),
               (''platform'', JStr ''douyin''),
               (''crawler_type'', JStr ''search'')]
   \<and> call_tool (\<lambda>s. Inr JNull) (Analyze_sensitive_content ''https://example.com/v.mp4'' ''7123'')
        (OtherError ''Expecting value'')
      = JDict [(''error'', JStr ''Unexpected error: Expecting value''),
               (''video_id'', JStr ''7123''),
               (''has_violation'', JBool False)]"
  using adapter_failure_record
    [where out = "HTTPError ''connection refused''" and loads = "\<lambda>s. Inr JNull"
       and call = "Create_crawler_task ''douyin'' ''search'' ''null''"
       and platform = "''douyin''" and crawler_type = "''search''" and config_json = "''null''"]
    adapter_failure_record
    [where out = "Response JNull" and loads = "\<lambda>s. Inl ''Expecting value''"
       and call = "Create_crawler_task ''douyin'' ''search'' ''{''"
       and platform = "''douyin''" and crawler_type = "''search''" and config_json = "''{''"]
    adapter_failure_record
    [where out = "OtherError ''Expecting value''" and loads = "\<lambda>s. Inr JNull"
       and call = "Analyze_sensitive_content ''https://example.com/v.mp4'' ''7123''"
       and video_url = "''https://example.com/v.mp4''" and video_id = "''7123''"]
  by (simp add: create_crawler_task_def)

text \<open>
  The claim C5 as stated fails for the post query: two different requests that fail the
  same way get the same result, a list of one record with the message alone, so the
  result carries no field of the request and cannot be matched to it.
\<close>

theorem query_failure_without_request_fields:
  "query_crawled_posts (Some ''douyin'') (Some ''ai'') None None 50
       (HTTPError ''connection refused'')
     = JList [JDict [(''error'', JStr ''Failed to query posts: connection refused'')]]
   \<and> query_crawled_posts (Some ''weibo'') None None None 10
       (HTTPError ''connection refused'')
     = JList [JDict [(''error'', JStr ''Failed to query posts: connection refused'')]]"
  by simp

section \<open>Results on the agent pipeline\<close>

lemmas assembly_defs =
  initialize_agent_system_def create_decision_support_agent_def
  create_report_generation_agent_def create_content_analysis_agent_def
  create_data_collection_agent_def create_coordinator_agent_def new_agent_def
  module_loaded_def first_assembly_def shift_def

text \<open>What one run of the assembler does to a state.\<close>

lemma initialize_fst: "fst (initialize_agent_system cfg s) = length (heap s) + 4"
  by (simp add: assembly_defs)

lemma initialize_heap:
  "heap (snd (initialize_agent_system cfg s))
     = heap s @ map (shift (length (heap s))) (first_assembly cfg)"
  by (simp add: assembly_defs)

lemma initialize_agent_system_global:
  "agent_system (snd (initialize_agent_system cfg s)) = agent_system s"
  by (simp add: assembly_defs)

lemma first_assembly_length: "length (first_assembly cfg) = 5"
  by (simp add: assembly_defs)

lemma shift_fields:
  "name (shift base ag) = name ag"
  "model (shift base ag) = model ag"
  "instructions (shift base ag) = instructions ag"
  "tools (shift base ag) = tools ag"
  "output_type (shift base ag) = output_type ag"
  "handoffs (shift base ag) = map (\<lambda>a. base + a) (handoffs ag)"
  by (simp_all add: shift_def)

lemma first_assembly_handoffs:
  "handoffs (first_assembly cfg ! 0) = []"
  "handoffs (first_assembly cfg ! 1) = [0]"
  "handoffs (first_assembly cfg ! Suc 0) = [0]"
  "handoffs (first_assembly cfg ! 2) = [1]"
  "handoffs (first_assembly cfg ! 3) = [2]"
  "handoffs (first_assembly cfg ! 4) = [3, 2]"
  by (simp_all add: assembly_defs)

lemma first_assembly_names:
  "map name (first_assembly cfg)
     = [''Decision Support'', ''Report Generation'', ''Content Analysis'',
        ''Data Collection'', ''Coordinator'']"
  by (simp add: assembly_defs)

text \<open>An assembly stays one when the heap grows, and the assembler makes one.\<close>

lemma is_assembly_append: "is_assembly cfg h base \<Longrightarrow> is_assembly cfg (h @ ext) base"
  by (simp add: is_assembly_def)

lemma is_assembly_new:
  "is_assembly cfg (h @ map (shift (length h)) (first_assembly cfg)) (length h)"
  by (simp add: is_assembly_def first_assembly_length)

lemma is_assembly_nth:
  assumes "is_assembly cfg h base" and "i < 5"
  shows "base + i < length h \<and> h ! (base + i) = shift base (first_assembly cfg ! i)"
proof -
  from assms have len: "base + 5 \<le> length h"
    and eq: "take 5 (drop base h) = map (shift base) (first_assembly cfg)"
    by (simp_all add: is_assembly_def)
  from len assms(2) have "h ! (base + i) = take 5 (drop base h) ! i" by simp
  also have "\<dots> = map (shift base) (first_assembly cfg) ! i" by (simp only: eq)
  also have "\<dots> = shift base (first_assembly cfg ! i)"
    using assms(2) by (simp add: first_assembly_length)
  finally show ?thesis using len assms(2) by simp
qed

lemma assembly_handoffs:
  assumes "is_assembly cfg h lo"
  shows "handoffs (h ! lo) = []"
    and "handoffs (h ! (lo + 1)) = [lo]"
    and "handoffs (h ! (lo + 2)) = [lo + 1]"
    and "handoffs (h ! (lo + 3)) = [lo + 2]"
    and "handoffs (h ! (lo + 4)) = [lo + 3, lo + 2]"
  using is_assembly_nth [OF assms, of 0] is_assembly_nth [OF assms, of 1]
    is_assembly_nth [OF assms, of 2] is_assembly_nth [OF assms, of 3]
    is_assembly_nth [OF assms, of 4]
  by (simp_all add: shift_fields first_assembly_handoffs)

text \<open>
  The unfolding below each agent of an assembly does not depend on where the assembly
  lies: one lemma per agent, from the terminal agent up.
\<close>

lemma graph_decision_support:
  "is_assembly cfg h base \<Longrightarrow> agent_graph n h base = agent_graph n (first_assembly cfg) 0"
  using is_assembly_nth [of cfg h base 0]
  by (cases n) (simp_all add: shift_fields first_assembly_handoffs first_assembly_length)

lemma graph_report_generation:
  "is_assembly cfg h base \<Longrightarrow>
     agent_graph n h (base + 1) = agent_graph n (first_assembly cfg) 1"
  using is_assembly_nth [of cfg h base 1] graph_decision_support [of cfg h base "n - 1"]
  by (cases n) (simp_all add: shift_fields first_assembly_handoffs first_assembly_length)

lemma graph_content_analysis:
  "is_assembly cfg h base \<Longrightarrow>
     agent_graph n h (base + 2) = agent_graph n (first_assembly cfg) 2"
  using is_assembly_nth [of cfg h base 2] graph_report_generation [of cfg h base "n - 1"]
  by (cases n) (simp_all add: shift_fields first_assembly_handoffs first_assembly_length)

lemma graph_data_collection:
  "is_assembly cfg h base \<Longrightarrow>
     agent_graph n h (base + 3) = agent_graph n (first_assembly cfg) 3"
  using is_assembly_nth [of cfg h base 3] graph_content_analysis [of cfg h base "n - 1"]
  by (cases n) (simp_all add: shift_fields first_assembly_handoffs first_assembly_length)

lemma graph_coordinator:
  "is_assembly cfg h base \<Longrightarrow>
     agent_graph n h (base + 4) = agent_graph n (first_assembly cfg) 4"
  using is_assembly_nth [of cfg h base 4] graph_data_collection [of cfg h base "n - 1"]
    graph_content_analysis [of cfg h base "n - 1"]
  by (cases n) (simp_all add: shift_fields first_assembly_handoffs first_assembly_length)

text \<open>The getter, by the two states of the cache.\<close>

lemma get_agent_system_None:
  "agent_system s = None \<Longrightarrow>
     get_agent_system cfg s
       = (length (heap s) + 4,
          \<lparr>heap = heap s @ map (shift (length (heap s))) (first_assembly cfg),
           agent_system = Some (length (heap s) + 4)\<rparr>)"
  by (simp add: get_agent_system_def assembly_defs)

lemma get_agent_system_Some:
  "agent_system s = Some a \<Longrightarrow> get_agent_system cfg s = (a, s)"
  by (simp add: get_agent_system_def)

text \<open>The invariant holds when the module is loaded and every call keeps it.\<close>

lemma pipeline_ok_initialize:
  "pipeline_ok cfg s \<Longrightarrow> pipeline_ok cfg (snd (initialize_agent_system cfg s))"
  by (auto simp: pipeline_ok_def initialize_heap initialize_agent_system_global
      is_assembly_append split: option.splits)

lemma pipeline_ok_get:
  "pipeline_ok cfg s \<Longrightarrow> pipeline_ok cfg (snd (get_agent_system cfg s))"
proof (cases "agent_system s")
  case None
  then show ?thesis
    using is_assembly_new [of cfg "heap s"]
    by (simp add: get_agent_system_None pipeline_ok_def)
next
  case (Some a)
  assume "pipeline_ok cfg s"
  with Some show ?thesis by (simp add: get_agent_system_Some)
qed

lemma pipeline_ok_reset: "pipeline_ok cfg (reset_agent_system s)"
  by (simp add: pipeline_ok_def reset_agent_system_def)

lemma pipeline_ok_do_call: "pipeline_ok cfg s \<Longrightarrow> pipeline_ok cfg (do_call cfg s c)"
  by (cases c) (simp_all add: pipeline_ok_initialize pipeline_ok_get pipeline_ok_reset)

lemma pipeline_ok_foldl: "pipeline_ok cfg s \<Longrightarrow> pipeline_ok cfg (foldl (do_call cfg) s cs)"
  by (induction cs arbitrary: s) (simp_all add: pipeline_ok_do_call)

lemma pipeline_ok_after_calls: "pipeline_ok cfg (after_calls cfg cs)"
  unfolding after_calls_def
  by (rule pipeline_ok_foldl) (simp add: pipeline_ok_def module_loaded_def)

lemma get_agent_system_result:
  assumes "pipeline_ok cfg s" and "get_agent_system cfg s = (a, s')"
  shows "agent_system s' = Some a \<and> 4 \<le> a \<and> is_assembly cfg (heap s') (a - 4)"
proof -
  from assms(1) have ok: "pipeline_ok cfg (snd (get_agent_system cfg s))"
    by (rule pipeline_ok_get)
  have "agent_system s' = Some a"
    using assms(2)
    by (cases "agent_system s") (auto simp: get_agent_system_None get_agent_system_Some)
  with ok assms(2) show ?thesis by (simp add: pipeline_ok_def)
qed

text \<open>The edges of an assembly that ends the heap, and why they admit no cycle.\<close>

lemma assembly_edges:
  assumes asm: "is_assembly cfg h lo" and len: "length h = lo + 5"
  shows "handoff_edges h lo
           = {(lo + 1, lo), (lo + 2, lo + 1), (lo + 3, lo + 2), (lo + 4, lo + 3),
              (lo + 4, lo + 2)}"
proof -
  have "(b, c) \<in> handoff_edges h lo \<longleftrightarrow>
          (b, c) \<in> {(lo + 1, lo), (lo + 2, lo + 1), (lo + 3, lo + 2), (lo + 4, lo + 3),
                    (lo + 4, lo + 2)}"
    for b c
  proof (cases "lo \<le> b \<and> b < lo + 5")
    case True
    then consider "b = lo" | "b = lo + 1" | "b = lo + 2" | "b = lo + 3" | "b = lo + 4"
      by arith
    then show ?thesis
      using assembly_handoffs [OF asm] len
      by cases (auto simp: handoff_edges_def)
  next
    case False
    then show ?thesis using len by (auto simp: handoff_edges_def)
  qed
  then show ?thesis by auto
qed

lemma decreasing_edges_acyclic:
  assumes "\<And>b c. (b, c) \<in> E \<Longrightarrow> c < (b::nat)"
  shows "(x, y) \<in> E\<^sup>+ \<Longrightarrow> y < x"
proof (induction rule: trancl_induct)
  case (base y)
  then show ?case by (rule assms)
next
  case (step y z)
  from step.hyps(2) have "z < y" by (rule assms)
  with step.IH show ?case by simp
qed

text \<open>
  C7. In every state the module can reach, two calls of the getter in a row return the
  same instance and the second changes nothing. After a reset the next call runs the
  assembler again: it returns another instance, at an address that did not exist before,
  made of five new agents, and the structure below the new instance is the structure
  below the old one at every depth.
\<close>

theorem get_agent_system_singleton:
  "let s = after_calls cfg cs;
       (a1, s1) = get_agent_system cfg s;
       (a2, s2) = get_agent_system cfg s1;
       (a3, s3) = get_agent_system cfg (reset_agent_system s2)
   in a2 = a1 \<and> s2 = s1
      \<and> a3 \<noteq> a1
      \<and> (\<forall>n. agent_graph n (heap s3) a3 = agent_graph n (heap s3) a1)
      \<and> (a3, s3) = (case initialize_agent_system cfg (reset_agent_system s2) of
                      (a, s') \<Rightarrow> (a, s'\<lparr>agent_system := Some a\<rparr>))
      \<and> a1 < length (heap s2) \<and> a3 = length (heap s2) + 4
      \<and> length (heap s3) = length (heap s2) + 5
      \<and> take (length (heap s2)) (heap s3) = heap s2"
proof -
  define s where "s = after_calls cfg cs"
  obtain a1 s1 where g1: "get_agent_system cfg s = (a1, s1)" by (cases "get_agent_system cfg s")
  have ok: "pipeline_ok cfg s" unfolding s_def by (rule pipeline_ok_after_calls)
  from get_agent_system_result [OF ok g1]
  have sys1: "agent_system s1 = Some a1" and a1: "4 \<le> a1"
    and asm1: "is_assembly cfg (heap s1) (a1 - 4)" by simp_all
  have g2: "get_agent_system cfg s1 = (a1, s1)"
    using sys1 by (rule get_agent_system_Some)
  let ?r = "reset_agent_system s1"
  have r: "agent_system ?r = None" "heap ?r = heap s1"
    by (simp_all add: reset_agent_system_def)
  define a3 where "a3 = length (heap s1) + 4"
  define s3 where "s3 = \<lparr>heap = heap s1 @ map (shift (length (heap s1))) (first_assembly cfg),
           agent_system = Some a3\<rparr>"
  have g3: "get_agent_system cfg ?r = (a3, s3)"
    using get_agent_system_None [OF r(1), of cfg] by (simp add: r(2) a3_def s3_def)
  have lt: "a1 < length (heap s1)"
    using asm1 a1 by (simp add: is_assembly_def)
  have ne: "a3 \<noteq> a1" using lt by (simp add: a3_def)
  have old: "is_assembly cfg (heap s3) (a1 - 4)"
    unfolding s3_def using asm1 by (simp add: is_assembly_append)
  have new: "is_assembly cfg (heap s3) (length (heap s1))"
    unfolding s3_def by (simp add: is_assembly_new)
  have eq: "agent_graph n (heap s3) a3 = agent_graph n (heap s3) a1" for n
    using graph_coordinator [OF old, of n] graph_coordinator [OF new, of n] a1
    by (simp add: a3_def)
  have again: "(a3, s3) = (case initialize_agent_system cfg ?r of
                      (a, s') \<Rightarrow> (a, s'\<lparr>agent_system := Some a\<rparr>))"
    unfolding g3 [symmetric] using r(1) by (simp add: get_agent_system_def)
  have len: "length (heap s3) = length (heap s1) + 5"
    by (simp add: s3_def first_assembly_length)
  have pre: "take (length (heap s1)) (heap s3) = heap s1"
    by (simp add: s3_def)
  show ?thesis
    unfolding s_def [symmetric] Let_def g1 g2 g3 prod.case
  proof (intro conjI allI)
    show "a1 = a1" and "s1 = s1" by (rule refl)+
    show "a3 \<noteq> a1" by (rule ne)
    show "agent_graph n (heap s3) a3 = agent_graph n (heap s3) a1" for n by (rule eq)
    show "(a3, s3) = (case initialize_agent_system cfg ?r of
                      (a, s') \<Rightarrow> (a, s'\<lparr>agent_system := Some a\<rparr>))" by (rule again)
    show "a1 < length (heap s1)" by (rule lt)
    show "a3 = length (heap s1) + 4" by (rule a3_def)
    show "length (heap s3) = length (heap s1) + 5" by (rule len)
    show "take (length (heap s1)) (heap s3) = heap s1" by (rule pre)
  qed
qed

theorem get_agent_system_singleton_witness:
  "(let s = after_calls default_settings [Initialize];
        (a1, s1) = get_agent_system default_settings s;
        (a2, s2) = get_agent_system default_settings s1;
        (a3, s3) = get_agent_system default_settings (reset_agent_system s2)
    in a2 = a1 \<and> s2 = s1
       \<and> a3 \<noteq> a1
       \<and> (\<forall>n. agent_graph n (heap s3) a3 = agent_graph n (heap s3) a1)
       \<and> (a3, s3) = (case initialize_agent_system default_settings (reset_agent_system s2) of
                       (a, s') \<Rightarrow> (a, s'\<lparr>agent_system := Some a\<rparr>))
       \<and> a1 < length (heap s2) \<and> a3 = length (heap s2) + 4
       \<and> length (heap s3) = length (heap s2) + 5
       \<and> take (length (heap s2)) (heap s3) = heap s2)
   \<and> fst (get_agent_system default_settings (after_calls default_settings [Initialize])) = 9
   \<and> fst (get_agent_system default_settings
            (reset_agent_system
               (snd (get_agent_system default_settings
                       (after_calls default_settings [Initialize]))))) = 14"
proof (intro conjI)
  show "let s = after_calls default_settings [Initialize];
        (a1, s1) = get_agent_system default_settings s;
        (a2, s2) = get_agent_system default_settings s1;
        (a3, s3) = get_agent_system default_settings (reset_agent_system s2)
    in a2 = a1 \<and> s2 = s1
       \<and> a3 \<noteq> a1
       \<and> (\<forall>n. agent_graph n (heap s3) a3 = agent_graph n (heap s3) a1)
       \<and> (a3, s3) = (case initialize_agent_system default_settings (reset_agent_system s2) of
                       (a, s') \<Rightarrow> (a, s'\<lparr>agent_system := Some a\<rparr>))
       \<and> a1 < length (heap s2) \<and> a3 = length (heap s2) + 4
       \<and> length (heap s3) = length (heap s2) + 5
       \<and> take (length (heap s2)) (heap s3) = heap s2"
    by (rule get_agent_system_singleton)
  show "fst (get_agent_system default_settings (after_calls default_settings [Initialize])) = 9"
    by (simp add: after_calls_def get_agent_system_def reset_agent_system_def assembly_defs)
  show "fst (get_agent_system default_settings
            (reset_agent_system
               (snd (get_agent_system default_settings
                       (after_calls default_settings [Initialize]))))) = 14"
    by (simp add: after_calls_def get_agent_system_def reset_agent_system_def assembly_defs)
qed

text \<open>
  C8. Whatever the heap holds before, the assembler allocates five agents in the order
  Decision Support, Report Generation, Content Analysis, Data Collection, Coordinator
  and returns the last one. The coordinator has exactly two handoffs, to the Data
  Collection and the Content Analysis agent; Decision Support has none. Every handoff of
  a new agent leads to an agent of the same assembly that was built before it, so no
  agent reaches itself along handoffs, and the coordinator is the only one of the five
  that no handoff leads to.
\<close>

theorem initialize_agent_system_graph:
  "let lo = length (heap s);
       (co, s') = initialize_agent_system cfg s;
       h' = heap s'
   in take lo h' = heap s
      \<and> map name (drop lo h')
          = [''Decision Support'', ''Report Generation'', ''Content Analysis'',
             ''Data Collection'', ''Coordinator'']
      \<and> co = lo + 4
      \<and> handoffs (h' ! co) = [lo + 3, lo + 2]
      \<and> handoffs (h' ! lo) = []
      \<and> (\<forall>(b, c) \<in> handoff_edges h' lo. lo \<le> c \<and> c < b)
      \<and> (\<forall>b. (b, b) \<notin> (handoff_edges h' lo)\<^sup>+)
      \<and> (\<forall>b. lo \<le> b \<and> b < length h' \<longrightarrow>
             (b = co \<longleftrightarrow> (\<forall>b'. (b', b) \<notin> handoff_edges h' lo)))"
proof -
  define lo where "lo = length (heap s)"
  define h' where "h' = heap (snd (initialize_agent_system cfg s))"
  have h': "h' = heap s @ map (shift lo) (first_assembly cfg)"
    by (simp add: h'_def lo_def initialize_heap)
  have asm: "is_assembly cfg h' lo"
    unfolding h' lo_def by (rule is_assembly_new)
  have len: "length h' = lo + 5"
    by (simp add: h' lo_def first_assembly_length)
  note edges = assembly_edges [OF asm len]
  have 1: "take lo h' = heap s" by (simp add: h' lo_def)
  have 2: "map name (drop lo h')
          = [''Decision Support'', ''Report Generation'', ''Content Analysis'',
             ''Data Collection'', ''Coordinator'']"
  proof -
    have "drop lo h' = map (shift lo) (first_assembly cfg)"
      by (simp add: h' lo_def)
    moreover have "map name (map (shift lo) (first_assembly cfg)) = map name (first_assembly cfg)"
      by (simp add: shift_fields)
    ultimately show ?thesis by (simp only: first_assembly_names)
  qed
  have 3: "fst (initialize_agent_system cfg s) = lo + 4"
    by (simp add: initialize_fst lo_def)
  have 4: "handoffs (h' ! (lo + 4)) = [lo + 3, lo + 2]"
    by (rule assembly_handoffs [OF asm])
  have 5: "handoffs (h' ! lo) = []"
    by (rule assembly_handoffs [OF asm])
  have 6: "\<forall>(b, c) \<in> handoff_edges h' lo. lo \<le> c \<and> c < b"
    unfolding edges by simp
  have dec: "c < a" if "(a, c) \<in> handoff_edges h' lo" for a c
    using 6 that by auto
  have 7: "\<forall>b. (b, b) \<notin> (handoff_edges h' lo)\<^sup>+"
  proof (intro allI notI)
    fix b
    assume "(b, b) \<in> (handoff_edges h' lo)\<^sup>+"
    with dec have "b < b"
      using decreasing_edges_acyclic [of "handoff_edges h' lo" b b] by blast
    then show False by simp
  qed
  have 8: "\<forall>b. lo \<le> b \<and> b < length h' \<longrightarrow>
             (b = lo + 4 \<longleftrightarrow> (\<forall>b'. (b', b) \<notin> handoff_edges h' lo))"
  proof (intro allI impI)
    fix b
    assume "lo \<le> b \<and> b < length h'"
    then consider "b = lo" | "b = lo + 1" | "b = lo + 2" | "b = lo + 3" | "b = lo + 4"
      using len by arith
    then show "b = lo + 4 \<longleftrightarrow> (\<forall>b'. (b', b) \<notin> handoff_edges h' lo)"
      by cases (auto simp: edges)
  qed
  from 1 2 3 4 5 6 7 8 show ?thesis
    by (simp add: Let_def split_def lo_def [symmetric] h'_def [symmetric])
qed


theorem initialize_agent_system_graph_witness:
  "fst (initialize_agent_system default_settings module_loaded) = 4
   \<and> map name (heap (snd (initialize_agent_system default_settings module_loaded)))
       = [''Decision Support'', ''Report Generation'', ''Content Analysis'',
          ''Data Collection'', ''Coordinator'']
   \<and> handoffs (heap (snd (initialize_agent_system default_settings module_loaded)) ! 4) = [3, 2]
   \<and> handoffs (heap (snd (initialize_agent_system default_settings module_loaded)) ! 0) = []
   \<and> (4, 3) \<in> handoff_edges (heap (snd (initialize_agent_system default_settings module_loaded))) 0
   \<and> (4, 4) \<notin> (handoff_edges
                  (heap (snd (initialize_agent_system default_settings module_loaded))) 0)\<^sup>+
   \<and> (3, 4) \<notin> handoff_edges (heap (snd (initialize_agent_system default_settings module_loaded))) 0"
proof -
  define h' where "h' = heap (snd (initialize_agent_system default_settings module_loaded))"
  have lo: "length (heap module_loaded) = 0" by (simp add: module_loaded_def)
  have co: "fst (initialize_agent_system default_settings module_loaded) = 4"
    by (simp add: assembly_defs)
  have names: "map name h'
       = [''Decision Support'', ''Report Generation'', ''Content Analysis'',
          ''Data Collection'', ''Coordinator'']"
    by (simp add: h'_def assembly_defs)
  have h4: "handoffs (h' ! 4) = [3, 2]" and h0: "handoffs (h' ! 0) = []"
    by (simp_all add: h'_def assembly_defs)
  have e: "(4, 3) \<in> handoff_edges h' 0"
    by (simp add: h'_def handoff_edges_def assembly_defs)
  have l: "0 \<le> (4::nat) \<and> 4 < length h'"
    by (simp add: h'_def assembly_defs)
  note t = initialize_agent_system_graph [where s = module_loaded and cfg = default_settings,
      unfolded Let_def split_def lo co, folded h'_def]
  from t have acyclic: "\<forall>b. (b, b) \<notin> (handoff_edges h' 0)\<^sup>+" by blast
  from t have "\<forall>b. 0 \<le> b \<and> b < length h' \<longrightarrow>
      (b = 4 \<longleftrightarrow> (\<forall>b'. (b', b) \<notin> handoff_edges h' 0))" by blast
  with l have "\<forall>b'. (b', 4) \<notin> handoff_edges h' 0" by blast
  then have entry: "(3, 4) \<notin> handoff_edges h' 0" by blast
  from acyclic have "(4, 4) \<notin> (handoff_edges h' 0)\<^sup>+" by blast
  with co names h4 h0 e entry show ?thesis
    unfolding h'_def by blast
qed

end
